theory Spec2Isabelle
  imports Complex_Main "HOL-Library.AList"
begin

section \<open>The IcePAP trigger controller\<close>

text \<open>
  A shallow embedding of \<^verbatim>\<open>sardana_icepap/ctrl/IcePAPTriggerController.py\<close>.

  The controller talks to two external collaborators, the \<^verbatim>\<open>icepap\<close> library (the
  link to the motion controller) and \<^verbatim>\<open>taurus\<close> (the device proxy of the motor).
  Neither is part of the repository, so both are a parameter of the model: a function
  that answers every call, given everything that was exchanged so far. Each call and
  its answer is appended to a trace, so that "no hardware I/O" and "this table was
  loaded" are statements about the trace.

  Python floats are modelled by exact rationals: rounding, infinities and NaN are not
  part of the model. Python's unbounded integers are \<^typ>\<open>int\<close>.
\<close>

subsection \<open>Exceptions\<close>

text \<open>
  \<^verbatim>\<open>HwException\<close> stands for whatever exception a call into \<^verbatim>\<open>icepap\<close> or
  \<^verbatim>\<open>taurus\<close> raises; the source only ever catches it as \<^verbatim>\<open>Exception\<close>.
\<close>

datatype py_exception =
    ValueError string
  | RuntimeError string
  | ZeroDivisionError
  | KeyError
  | IndexError
  | HwException

subsection \<open>The hardware link\<close>

text \<open>The three flags of the axis state that \<^verbatim>\<open>StateOne\<close> looks at.\<close>

record hw_status =
  is_poweron :: bool
  is_moving :: bool
  is_settling :: bool

text \<open>
  One constructor for each operation on the collaborators. An operation written
  \<^verbatim>\<open>self._ipap[self._motor_axis].op(...)\<close> is one call (the lookup of the axis and the
  operation raise to the same handler); a lookup \<^verbatim>\<open>motor = self._ipap[self._motor_axis]\<close>
  that stands alone is \<open>GetAxis\<close>. The axis is \<^verbatim>\<open>self._motor_axis\<close>, which is
  \<^verbatim>\<open>None\<close> until a motor is bound.
\<close>

datatype hw_call =
    GetAxis "int option"
  | GetState "int option"
  | GetCfg "int option" string
  | SetSyncaux "int option" string string
  | SetAttr "int option" string string string
  | SetEcamTable "int option" "rat list" string
  | GetPmux
  | ClearPmux string
  | AddPmux "int option" string bool bool bool
  | TaurusDevice string
  | ReadAttribute string string
  | Connect string int rat

text \<open>\<open>Raise\<close> is an exception raised by the call; the others are its value.\<close>

datatype hw_reply =
    Raise
  | Done
  | RState hw_status
  | RCfg string
  | RPmux "string list"
  | RValue rat

type_synonym trace = "(hw_call \<times> hw_reply) list"

type_synonym hardware = "trace \<Rightarrow> hw_call \<Rightarrow> hw_reply"

subsection \<open>The controller's fields\<close>

datatype state = On | Moving | Alarm

record ctrl =
  IcepapCtrlAlias :: string
  time_mode :: bool
  start_trigger_only :: bool
  axis_info_list :: "string list"
  retries_nr :: int
  last_id :: "int option"
  motor_axis :: "int option"
  motor_spu :: rat
  is_tgtenc :: bool
  ecam_source_dict :: "(int \<times> string) list option"
  ecam_source :: string

subsection \<open>\<^verbatim>\<open>StateOne\<close>\<close>

text \<open>
  The loop \<^verbatim>\<open>for i in range(self._retries_nr)\<close> of \<^verbatim>\<open>StateOne\<close>: the first read
  that returns ends it, a read that raises is logged and the next one is tried. A reply
  that is not a state counts as a raise.
\<close>

fun read_state_retry :: "hardware \<Rightarrow> int option \<Rightarrow> nat \<Rightarrow> trace \<Rightarrow> hw_status option \<times> trace" where
  "read_state_retry env ax 0 tr = (None, tr)"
| "read_state_retry env ax (Suc k) tr =
     (case env tr (GetState ax) of
        RState s \<Rightarrow> (Some s, tr @ [(GetState ax, RState s)])
      | r \<Rightarrow> read_state_retry env ax k (tr @ [(GetState ax, r)]))"

definition StateOne :: "hardware \<Rightarrow> int \<Rightarrow> ctrl \<Rightarrow> trace \<Rightarrow> (state \<times> string) \<times> trace" where
  "StateOne env axis c tr =
     (if motor_axis c \<noteq> None then
        (case read_state_retry env (motor_axis c) (nat (retries_nr c)) tr of
           (hw_state, tr') \<Rightarrow>
             (case hw_state of
                None \<Rightarrow> ((Alarm, ''The motor is power off or not possible to read State''), tr')
              | Some s \<Rightarrow>
                  if \<not> is_poweron s then
                    ((Alarm, ''The motor is power off or not possible to read State''), tr')
                  else if is_moving s \<or> is_settling s then ((Moving, ''Moving''), tr')
                  else ((On, ''Motor is not generating triggers.''), tr')))
      else ((On, ''No synchronization in progress''), tr))"

subsection \<open>Module constants\<close>

definition LOW :: string where "LOW = ''low''"
definition HIGH :: string where "HIGH = ''high''"
definition ECAM :: string where "ECAM = ''ecam''"

definition MAX_ECAM_VALUES :: int where "MAX_ECAM_VALUES = 20477"

definition ECAM_SOURCE_VALUES :: "string list" where
  "ECAM_SOURCE_VALUES = [''ENCIN'', ''ABSENC'', ''INPOS'']"

subsection \<open>Python's string and number helpers\<close>

text \<open>\<^verbatim>\<open>str.upper\<close> on ASCII text.\<close>

definition upper_char :: "char \<Rightarrow> char" where
  "upper_char ch = (let n = (of_char ch :: nat) in if 97 \<le> n \<and> n \<le> 122 then char_of (n - 32) else ch)"

definition upper :: "string \<Rightarrow> string" where
  "upper s = map upper_char s"

text \<open>\<^verbatim>\<open>str.strip\<close>: the ASCII characters for which \<^verbatim>\<open>str.isspace\<close> holds.\<close>

definition is_space :: "char \<Rightarrow> bool" where
  "is_space ch = (let n = (of_char ch :: nat) in n = 32 \<or> (9 \<le> n \<and> n \<le> 13) \<or> (28 \<le> n \<and> n \<le> 31))"

definition strip :: "string \<Rightarrow> string" where
  "strip s = rev (dropWhile is_space (rev (dropWhile is_space s)))"


text \<open>\<^verbatim>\<open>sub in s\<close> on strings.\<close>

fun contains :: "string \<Rightarrow> string \<Rightarrow> bool" where
  "contains sub [] = (sub = [])"
| "contains sub (ch # cs) = (take (length sub) (ch # cs) = sub \<or> contains sub cs)"

text \<open>\<^verbatim>\<open>str(n)\<close> of an integer, as \<^verbatim>\<open>'{}'.format(n)\<close> prints it.\<close>

definition digit_char :: "nat \<Rightarrow> char" where
  "digit_char d = ''0123456789'' ! d"

fun str_nat :: "nat \<Rightarrow> string" where
  "str_nat n = (if n < 10 then [digit_char n] else str_nat (n div 10) @ [digit_char (n mod 10)])"

definition str_int :: "int \<Rightarrow> string" where
  "str_int i = (if i < 0 then CHR ''-'' # str_nat (nat (- i)) else str_nat (nat i))"

text \<open>
  \<^verbatim>\<open>int(s)\<close> of a string: surrounding white space, an optional sign, decimal digits.
  (Python also accepts single underscores between digits; the configuration registers
  of the controller do not print them.) \<open>None\<close> is Python's \<^verbatim>\<open>ValueError\<close>.
\<close>

definition is_digit :: "char \<Rightarrow> bool" where
  "is_digit ch = (let n = (of_char ch :: nat) in 48 \<le> n \<and> n \<le> 57)"

definition digits_value :: "string \<Rightarrow> int" where
  "digits_value ds = foldl (\<lambda>acc ch. 10 * acc + (int (of_char ch) - 48)) 0 ds"

definition py_int :: "string \<Rightarrow> int option" where
  "py_int s =
     (let t = strip s;
          neg = (t \<noteq> [] \<and> hd t = CHR ''-'');
          ds = (if t \<noteq> [] \<and> (hd t = CHR ''-'' \<or> hd t = CHR ''+'') then tl t else t)
      in if ds \<noteq> [] \<and> list_all is_digit ds
         then Some (if neg then - digits_value ds else digits_value ds)
         else None)"

text \<open>
  \<^verbatim>\<open>numpy.linspace(start, stop, num)\<close> with the default \<^verbatim>\<open>endpoint=True\<close>:
  \<^verbatim>\<open>num\<close> samples \<^verbatim>\<open>start + i * step\<close> with \<^verbatim>\<open>step = (stop - start) / (num - 1)\<close>,
  the last one set to \<^verbatim>\<open>stop\<close>; one sample is \<^verbatim>\<open>start\<close>, none is the empty array, and
  a negative \<^verbatim>\<open>num\<close> raises.
\<close>

definition linspace :: "rat \<Rightarrow> rat \<Rightarrow> int \<Rightarrow> py_exception + rat list" where
  "linspace start stop num =
     (if num < 0 then
        Inl (ValueError (''Number of samples, '' @ str_int num @ '', must be non-negative.''))
      else if num = 0 then Inr []
      else if num = 1 then Inr [start]
      else
        (let step = (stop - start) / of_int (num - 1)
         in Inr (map (\<lambda>i. start + of_nat i * step) [0..<nat (num - 1)] @ [stop])))"

subsection \<open>\<^verbatim>\<open>__init__\<close>\<close>



subsection \<open>\<^verbatim>\<open>_set_out\<close>\<close>

text \<open>The loop \<^verbatim>\<open>for info_out in self._axis_info_list: setattr(motor, info_out, value)\<close>.\<close>

fun set_infos :: "hardware \<Rightarrow> int option \<Rightarrow> string \<Rightarrow> string list \<Rightarrow> trace \<Rightarrow> (py_exception + unit) \<times> trace" where
  "set_infos env ax out [] tr = (Inr (), tr)"
| "set_infos env ax out (info_out # infos) tr =
     (let r = env tr (SetAttr ax info_out out ''normal'');
          tr1 = tr @ [(SetAttr ax info_out out ''normal'', r)]
      in case r of Done \<Rightarrow> set_infos env ax out infos tr1 | _ \<Rightarrow> (Inl HwException, tr1))"

text \<open>
  \<^verbatim>\<open>self._ecam_source_dict and self._motor_axis in self._ecam_source_dict\<close>, then the
  value stored for the axis: \<open>None\<close> when the dictionary is \<^verbatim>\<open>None\<close>, empty or has no
  such key.
\<close>

definition ecam_dict_lookup :: "(int \<times> string) list option \<Rightarrow> int option \<Rightarrow> string option" where
  "ecam_dict_lookup d ax =
     (case d of None \<Rightarrow> None
      | Some kvs \<Rightarrow> (case ax of None \<Rightarrow> None | Some k \<Rightarrow> map_of kvs k))"

text \<open>\<^verbatim>\<open>self._ecam_source_dict[self._motor_axis] = enc\<close>, reached only when the key is there.\<close>

definition set_dict_entry :: "(int \<times> string) list option \<Rightarrow> int option \<Rightarrow> string \<Rightarrow> (int \<times> string) list option" where
  "set_dict_entry d ax enc =
     (case d of None \<Rightarrow> None
      | Some kvs \<Rightarrow> (case ax of None \<Rightarrow> Some kvs | Some k \<Rightarrow> Some (AList.update k enc kvs)))"

text \<open>Lines 144 to 149, with \<open>enc\<close> the name that is tested and \<open>v\<close> the dictionary's entry.\<close>

definition select_source :: "string \<Rightarrow> string \<Rightarrow> ctrl \<Rightarrow> ctrl" where
  "select_source enc v c =
     (if enc \<in> set ECAM_SOURCE_VALUES then c\<lparr>ecam_source := v\<rparr> else c\<lparr>ecam_source := ''AXIS''\<rparr>)"

definition set_out :: "hardware \<Rightarrow> string \<Rightarrow> int \<Rightarrow> ctrl \<Rightarrow> trace \<Rightarrow> (py_exception + unit) \<times> ctrl \<times> trace" where
  "set_out env out axis c tr =
     (let ax = motor_axis c;
          r0 = env tr (GetAxis ax);
          tr0 = tr @ [(GetAxis ax, r0)]
      in case r0 of
           Done \<Rightarrow>
             if axis = 0 then
               (let r1 = env tr0 (SetSyncaux ax out ''normal'');
                    tr1 = tr0 @ [(SetSyncaux ax out ''normal'', r1)]
                in case r1 of
                     Done \<Rightarrow>
                       (case ecam_dict_lookup (ecam_source_dict c) ax of
                          Some v \<Rightarrow>
                            if upper v = ''TGTENC'' then
                              (let r2 = env tr1 (GetCfg ax ''TGTENC'');
                                   tr2 = tr1 @ [(GetCfg ax ''TGTENC'', r2)]
                               in case r2 of
                                    RCfg enc \<Rightarrow>
                                      (Inr (),
                                       select_source enc enc
                                         (c\<lparr>ecam_source_dict :=
                                              set_dict_entry (ecam_source_dict c) ax enc\<rparr>),
                                       tr2)
                                  | _ \<Rightarrow> (Inl HwException, c, tr2))
                            else (Inr (), select_source (upper v) v c, tr1)
                        | None \<Rightarrow> (Inr (), c\<lparr>ecam_source := ''AXIS''\<rparr>, tr1))
                   | _ \<Rightarrow> (Inl HwException, c, tr1))
             else
               (case set_infos env ax out (axis_info_list c) tr0 of (r, tr1) \<Rightarrow> (r, c, tr1))
         | _ \<Rightarrow> (Inl HwException, c, tr0))"

subsection \<open>\<^verbatim>\<open>_configureMotor\<close> and \<^verbatim>\<open>SetAxisPar\<close>\<close>

definition motor_name :: "ctrl \<Rightarrow> int \<Rightarrow> string" where
  "motor_name c id' = ''motor/'' @ IcepapCtrlAlias c @ ''/'' @ str_int id'"

text \<open>Lines 169 to 180: the multiplexer is rewired.\<close>

definition connect_pmux :: "hardware \<Rightarrow> ctrl \<Rightarrow> trace \<Rightarrow> (py_exception + unit) \<times> trace" where
  "connect_pmux env c tr =
     (let r0 = env tr GetPmux; tr0 = tr @ [(GetPmux, r0)]
      in case r0 of
           RPmux pmux \<Rightarrow>
             (let clear = (\<exists>p \<in> set pmux. contains ''E0'' p);
                  r1 = env tr0 (ClearPmux ''e0'');
                  tr1 = (if clear then tr0 @ [(ClearPmux ''e0'', r1)] else tr0)
              in if clear \<and> r1 \<noteq> Done then (Inl HwException, tr1)
                 else
                   (let add = AddPmux (motor_axis c) ''e0'' False True True;
                        r2 = env tr1 add; tr2 = tr1 @ [(add, r2)]
                    in case r2 of
                         Done \<Rightarrow>
                           (let r3 = env tr2 GetPmux; tr3 = tr2 @ [(GetPmux, r3)]
                            in case r3 of RPmux _ \<Rightarrow> (Inr (), tr3) | _ \<Rightarrow> (Inl HwException, tr3))
                       | _ \<Rightarrow> (Inl HwException, tr2)))
         | _ \<Rightarrow> (Inl HwException, tr0))"

definition configureMotor :: "hardware \<Rightarrow> int \<Rightarrow> int \<Rightarrow> ctrl \<Rightarrow> trace \<Rightarrow> (py_exception + unit) \<times> ctrl \<times> trace" where
  "configureMotor env id' axis c tr =
     (let name = motor_name c id';
          r0 = env tr (TaurusDevice name);
          tr0 = tr @ [(TaurusDevice name, r0)]
      in case r0 of
           Done \<Rightarrow>
             (let c1 = c\<lparr>motor_axis := Some id'\<rparr>;
                  r1 = env tr0 (ReadAttribute name ''step_per_unit'');
                  tr1 = tr0 @ [(ReadAttribute name ''step_per_unit'', r1)]
              in case r1 of
                   RValue spu \<Rightarrow>
                     (let c2 = c1\<lparr>motor_spu := spu\<rparr>
                      in if Some id' = last_id c2 then (Inr (), c2, tr1)
                         else
                           (let c3 = c2\<lparr>last_id := Some id'\<rparr>
                            in if axis = 0 then
                                 (case connect_pmux env c3 tr1 of (r, tr2) \<Rightarrow> (r, c3, tr2))
                               else (Inr (), c3, tr1)))
                 | _ \<Rightarrow> (Inl HwException, c1, tr1))
         | _ \<Rightarrow> (Inl HwException, c, tr0))"

definition SetAxisPar :: "hardware \<Rightarrow> int \<Rightarrow> string \<Rightarrow> int \<Rightarrow> ctrl \<Rightarrow> trace \<Rightarrow> (py_exception + unit) \<times> ctrl \<times> trace" where
  "SetAxisPar env axis par val c tr =
     (if axis = 0 \<and> par = ''active_input'' then configureMotor env val axis c tr
      else (Inl (ValueError (''unsupported axis par '' @ par @ '' for axis '' @ str_int axis)), c, tr))"

subsection \<open>\<^verbatim>\<open>PreStartOne\<close> and \<^verbatim>\<open>AbortOne\<close>\<close>

definition PreStartOne :: "hardware \<Rightarrow> int \<Rightarrow> ctrl \<Rightarrow> trace \<Rightarrow> (py_exception + bool) \<times> ctrl \<times> trace" where
  "PreStartOne env axis c tr =
     (case set_out env (if time_mode c then LOW else ECAM) axis c tr of
        (Inl e, c', tr') \<Rightarrow> (Inl e, c', tr')
      | (Inr _, c', tr') \<Rightarrow> (Inr True, c', tr'))"


definition setStartTriggerOnly :: "int \<Rightarrow> bool \<Rightarrow> ctrl \<Rightarrow> ctrl" where
  "setStartTriggerOnly axis val c = c\<lparr>start_trigger_only := val\<rparr>"

definition getStartTriggerOnly :: "int \<Rightarrow> ctrl \<Rightarrow> bool" where
  "getStartTriggerOnly axis c = start_trigger_only c"

subsection \<open>\<^verbatim>\<open>SynchOne\<close>\<close>

text \<open>
  The synchronization description: \<^verbatim>\<open>configuration\<close> is a list of dictionaries keyed
  by \<^verbatim>\<open>SynchParam\<close>; \<^verbatim>\<open>Initial\<close> and \<^verbatim>\<open>Total\<close> are dictionaries keyed by
  \<^verbatim>\<open>SynchDomain\<close>. A key that is absent is \<open>None\<close>.
\<close>

datatype synch_domain = Time | Position

record synch_group =
  Repeats :: "int option"
  Initial :: "(synch_domain \<Rightarrow> rat option) option"
  Total :: "(synch_domain \<Rightarrow> rat option) option"

text \<open>\<^verbatim>\<open>SynchOne\<close> returns \<^verbatim>\<open>None\<close>, or \<^verbatim>\<open>False\<close> when the target encoder cannot be read.\<close>

datatype retval = PyNone | PyFalse

definition msg_multiple :: string where
  "msg_multiple = ''The IcePAP Trigger Controller is not allowed to generate multiple trigger synchronized by time''"

definition msg_too_many :: string where
  "msg_too_many = ''The Trigger by position not accept more than '' @ str_int MAX_ECAM_VALUES @ '' positions (points)''"

definition msg_not_sent :: string where
  "msg_not_sent = ''Can not send trigger table.''"

text \<open>Lines 291 to 302: the registers that hold the resolution of the selected encoder.\<close>

definition enc_cfg_keys :: "string \<Rightarrow> string \<times> string" where
  "enc_cfg_keys enc =
     (if enc = ''ENCIN'' then (''EINNSTEP'', ''EINNTURN'')
      else if enc = ''ABSENC'' then (''ABSNSTEP'', ''ABSNTURN'')
      else if enc = ''INPOS'' then (''INPNSTEP'', ''INPNTURN'')
      else (''ANSTEP'', ''ANTURN''))"

text \<open>\<^verbatim>\<open>int(motor.get_cfg(key)[key])\<close>.\<close>

definition read_int_cfg :: "hardware \<Rightarrow> int option \<Rightarrow> string \<Rightarrow> trace \<Rightarrow> (py_exception + int) \<times> trace" where
  "read_int_cfg env ax key tr =
     (let r = env tr (GetCfg ax key); tr1 = tr @ [(GetCfg ax key, r)]
      in case r of
           RCfg v \<Rightarrow>
             (case py_int v of
                Some i \<Rightarrow> (Inr i, tr1)
              | None \<Rightarrow> (Inl (ValueError ''invalid literal for int() with base 10''), tr1))
         | _ \<Rightarrow> (Inl HwException, tr1))"

text \<open>\<^verbatim>\<open>int(motor.get_cfg(cfgstep)[cfgstep]) / int(motor.get_cfg(cfgturn)[cfgturn])\<close>.\<close>

definition read_resol :: "hardware \<Rightarrow> int option \<Rightarrow> string \<Rightarrow> string \<Rightarrow> trace \<Rightarrow> (py_exception + rat) \<times> trace" where
  "read_resol env ax cfgstep cfgturn tr =
     (case read_int_cfg env ax cfgstep tr of
        (Inl e, tr1) \<Rightarrow> (Inl e, tr1)
      | (Inr nstep, tr1) \<Rightarrow>
          (case read_int_cfg env ax cfgturn tr1 of
             (Inl e, tr2) \<Rightarrow> (Inl e, tr2)
           | (Inr nturn, tr2) \<Rightarrow>
               if nturn = 0 then (Inl ZeroDivisionError, tr2)
               else (Inr (of_int nstep / of_int nturn), tr2)))"

text \<open>
  Lines 279 to 310: \<open>start\<close>, \<open>delta\<close> and \<open>end\<close> in the units of the selected
  encoder, as they are when the table is built.
\<close>

definition synch_values ::
  "hardware \<Rightarrow> ctrl \<Rightarrow> synch_group \<Rightarrow> int \<Rightarrow> trace \<Rightarrow> (py_exception + rat \<times> rat \<times> rat) \<times> trace" where
  "synch_values env c synch_group nr_points tr =
     (case Option.bind (Initial synch_group) (\<lambda>d. d Position) of
        None \<Rightarrow> (Inl KeyError, tr)
      | Some start_user \<Rightarrow>
          (case Option.bind (Total synch_group) (\<lambda>d. d Position) of
             None \<Rightarrow> (Inl KeyError, tr)
           | Some delta_user \<Rightarrow>
               (let start = start_user * motor_spu c;
                    delta = delta_user * motor_spu c;
                    end = start + delta * of_int nr_points;
                    ax = motor_axis c;
                    r0 = env tr (GetAxis ax);
                    tr0 = tr @ [(GetAxis ax, r0)]
                in case r0 of
                     Done \<Rightarrow>
                       (let enc = upper (ecam_source c)
                        in if enc \<noteq> ''AXIS'' then
                             (case enc_cfg_keys enc of
                                (cfgstep, cfgturn) \<Rightarrow>
                                  (case read_resol env ax cfgstep cfgturn tr0 of
                                     (Inl e, tr1) \<Rightarrow> (Inl e, tr1)
                                   | (Inr enc_resol, tr1) \<Rightarrow>
                                       (case read_resol env ax ''ANSTEP'' ''ANTURN'' tr1 of
                                          (Inl e, tr2) \<Rightarrow> (Inl e, tr2)
                                        | (Inr motor_resol, tr2) \<Rightarrow>
                                            if motor_resol = 0 then (Inl ZeroDivisionError, tr2)
                                            else
                                              (Inr ((start / motor_resol) * enc_resol,
                                                    (delta / motor_resol) * enc_resol,
                                                    (end / motor_resol) * enc_resol), tr2))))
                           else (Inr (start, delta, end), tr0))
                   | _ \<Rightarrow> (Inl HwException, tr0))))"

text \<open>Lines 323 to 334: the table, or the refusal of a table that is too long.\<close>

definition trigger_table :: "ctrl \<Rightarrow> int \<Rightarrow> rat \<Rightarrow> rat \<Rightarrow> rat \<Rightarrow> py_exception + rat list" where
  "trigger_table c nr_points start delta end =
     (if start_trigger_only c then Inr [start]
      else if nr_points > MAX_ECAM_VALUES then Inl (RuntimeError msg_too_many)
      else linspace start (end - delta) nr_points)"

text \<open>
  Lines 336 to 345: the table is sent up to \<^verbatim>\<open>self._retries_nr\<close> times, until one
  attempt does not raise. The result is \<^verbatim>\<open>table_loaded\<close>.
\<close>

fun send_table_retry :: "hardware \<Rightarrow> int option \<Rightarrow> rat list \<Rightarrow> string \<Rightarrow> nat \<Rightarrow> trace \<Rightarrow> bool \<times> trace" where
  "send_table_retry env ax table src 0 tr = (False, tr)"
| "send_table_retry env ax table src (Suc k) tr =
     (let r = env tr (SetEcamTable ax table src); tr1 = tr @ [(SetEcamTable ax table src, r)]
      in case r of
           Done \<Rightarrow> (True, tr1)
         | _ \<Rightarrow> send_table_retry env ax table src k tr1)"

definition SynchOne ::
  "hardware \<Rightarrow> int \<Rightarrow> synch_group list \<Rightarrow> ctrl \<Rightarrow> trace \<Rightarrow> (py_exception + retval) \<times> ctrl \<times> trace" where
  "SynchOne env axis configuration c tr =
     (case configuration of
        [] \<Rightarrow> (Inl IndexError, c, tr)
      | synch_group # _ \<Rightarrow>
          (case Repeats synch_group of
             None \<Rightarrow> (Inl KeyError, c, tr)
           | Some nr_points \<Rightarrow>
               if Initial synch_group = None then
                 (if nr_points > 1 then (Inl (ValueError msg_multiple), c, tr)
                  else (Inr PyNone, c\<lparr>time_mode := True\<rparr>, tr))
               else
                 (let c1 = c\<lparr>time_mode := False\<rparr>;
                      ax = motor_axis c1;
                      r0 = env tr (GetCfg ax ''TGTENC'');
                      tr0 = tr @ [(GetCfg ax ''TGTENC'', r0)]
                  in case r0 of
                       RCfg tgtenc_cfg \<Rightarrow>
                         (let c2 = c1\<lparr>is_tgtenc := (tgtenc_cfg = ''NONE'')\<rparr>
                          in case synch_values env c2 synch_group nr_points tr0 of
                               (Inl e, tr1) \<Rightarrow> (Inl e, c2, tr1)
                             | (Inr (start, delta, end), tr1) \<Rightarrow>
                                 (case trigger_table c2 nr_points start delta end of
                                    Inl e \<Rightarrow> (Inl e, c2, tr1)
                                  | Inr table \<Rightarrow>
                                      (case send_table_retry env ax table (ecam_source c2)
                                              (nat (retries_nr c2)) tr1 of
                                         (table_loaded, tr2) \<Rightarrow>
                                           if \<not> table_loaded then (Inl (RuntimeError msg_not_sent), c2, tr2)
                                           else (Inr PyNone, c2, tr2))))
                     | _ \<Rightarrow> (Inr PyFalse, c1, tr0))))"

subsection \<open>Observations on a trace\<close>

text \<open>The calls that rewire the multiplexer, and the calls that send a table.\<close>

fun is_pmux_call :: "hw_call \<Rightarrow> bool" where
  "is_pmux_call GetPmux = True"
| "is_pmux_call (ClearPmux line) = True"
| "is_pmux_call (AddPmux ax line pos aux hard) = True"
| "is_pmux_call other = False"

definition pmux_calls :: "trace \<Rightarrow> hw_call list" where
  "pmux_calls tr = filter is_pmux_call (map fst tr)"



subsection \<open>A controller, a link and synchronization descriptions to run the model on\<close>

text \<open>A link on which every call succeeds; the axis has an encoder input of 10000 steps
  per turn and 8000 motor steps per turn, and the motor has 100 steps per unit.\<close>

definition sample_hw :: hardware where
  "sample_hw tr call =
     (case call of
        GetAxis ax \<Rightarrow> (if ax = None then Raise else Done)
      | GetState ax \<Rightarrow> RState \<lparr>is_poweron = True, is_moving = False, is_settling = False\<rparr>
      | GetCfg ax key \<Rightarrow>
          (if key = ''TGTENC'' then RCfg ''ENCIN''
           else if key = ''EINNSTEP'' then RCfg ''10000''
           else if key = ''ANSTEP'' then RCfg ''8000''
           else RCfg ''1'')
      | GetPmux \<Rightarrow> RPmux [''B1 E0'']
      | ReadAttribute name attr \<Rightarrow> RValue 100
      | _ \<Rightarrow> Done)"


definition sample_ctrl :: ctrl where
  "sample_ctrl =
     \<lparr>IcepapCtrlAlias = ''ipap'', time_mode = False, start_trigger_only = False,
      axis_info_list = [''InfoA''], retries_nr = 5, last_id = Some 1, motor_axis = Some 1,
      motor_spu = 100, is_tgtenc = False, ecam_source_dict = None, ecam_source = ''AXIS''\<rparr>"

text \<open>The same controller before a motor is bound.\<close>

definition unbound_ctrl :: ctrl where
  "unbound_ctrl = sample_ctrl\<lparr>last_id := None, motor_axis := None, motor_spu := 1\<rparr>"

definition position_group :: "int \<Rightarrow> rat \<Rightarrow> rat \<Rightarrow> synch_group" where
  "position_group n start_user delta_user =
     \<lparr>Repeats = Some n,
      Initial = Some (\<lambda>d. if d = Position then Some start_user else None),
      Total = Some (\<lambda>d. if d = Position then Some delta_user else None)\<rparr>"

definition time_group :: "int \<Rightarrow> rat \<Rightarrow> synch_group" where
  "time_group n total_time = \<lparr>Repeats = Some n, Initial = None,
      Total = Some (\<lambda>d. if d = Time then Some total_time else None)\<rparr>"

section \<open>Properties\<close>

subsection \<open>Status query\<close>


text \<open>
  C10. When no motor was ever bound (\<^verbatim>\<open>self._motor_axis is None\<close>), \<^verbatim>\<open>StateOne\<close>
  returns \<^verbatim>\<open>State.On\<close> with the message "No synchronization in progress" and makes no
  call to the hardware: the trace is what it was.
\<close>

theorem StateOne_unbound:
  "StateOne env axis (c\<lparr>motor_axis := None\<rparr>) tr = ((On, ''No synchronization in progress''), tr)"
  by (simp add: StateOne_def)



subsection \<open>Retry budget\<close>



subsection \<open>Synchronization by time\<close>

text \<open>
  C5. A synchronization description without \<^verbatim>\<open>SynchParam.Initial\<close> (time driven) that
  asks for more than one repeat makes \<^verbatim>\<open>SynchOne\<close> raise \<^verbatim>\<open>ValueError\<close>; the
  controller's fields and the trace of hardware calls are what they were, so no
  configuration was read, no table sent and no output written.
\<close>

theorem SynchOne_time_multiple:
  assumes "Repeats sg = Some n" and "Initial sg = None" and "1 < n"
  shows "SynchOne env axis (sg # rest) c tr = (Inl (ValueError msg_multiple), c, tr)"
  using assms by (simp add: SynchOne_def)

theorem SynchOne_time_multiple_witness:
  "Repeats (time_group 2 1) = Some 2 \<and> Initial (time_group 2 1) = None \<and> (1::int) < 2 \<and>
   SynchOne sample_hw 0 [time_group 2 1] sample_ctrl [] = (Inl (ValueError msg_multiple), sample_ctrl, [])"
  using SynchOne_time_multiple [of "time_group 2 1" 2 sample_hw 0 "[]" sample_ctrl "[]"]
  by (simp add: time_group_def)

subsection \<open>Binding a motor\<close>

lemma configureMotor_last_id:
  assumes "configureMotor env id' axis c tr = (Inr (), c1, tr1)"
  shows "last_id c1 = Some id'"
  using assms
  by (auto simp add: configureMotor_def Let_def split: hw_reply.splits if_splits prod.splits)

lemma configureMotor_same_id:
  assumes "last_id c = Some id'"
  shows "pmux_calls (snd (snd (configureMotor env id' axis c tr))) = pmux_calls tr"
  using assms
  by (simp add: configureMotor_def Let_def pmux_calls_def split: hw_reply.splits)

lemma str_int_1: "str_int 1 = ''1''"
  by (simp add: str_int_def digit_char_def)

text \<open>
  C8. Once \<^verbatim>\<open>_configureMotor\<close> has returned for a motor id, a second call with the same
  id makes no multiplexer call (\<^verbatim>\<open>get_pmux\<close>, \<^verbatim>\<open>clear_pmux\<close>, \<^verbatim>\<open>add_pmux\<close>): the
  multiplexer calls in the trace after the second call are those that were there before it.
\<close>

theorem configureMotor_rebind:
  assumes "configureMotor env id' axis c tr = (Inr (), c1, tr1)"
  shows "pmux_calls (snd (snd (configureMotor env id' axis c1 tr1))) = pmux_calls tr1"
  using configureMotor_last_id [OF assms] by (rule configureMotor_same_id)

theorem configureMotor_rebind_witness:
  "configureMotor sample_hw 1 0 unbound_ctrl [] =
     (Inr (), sample_ctrl,
      [(TaurusDevice ''motor/ipap/1'', Done),
       (ReadAttribute ''motor/ipap/1'' ''step_per_unit'', RValue 100),
       (GetPmux, RPmux [''B1 E0'']),
       (ClearPmux ''e0'', Done),
       (AddPmux (Some 1) ''e0'' False True True, Done),
       (GetPmux, RPmux [''B1 E0''])])
   \<and> pmux_calls (snd (snd (configureMotor sample_hw 1 0 sample_ctrl
        [(TaurusDevice ''motor/ipap/1'', Done),
         (ReadAttribute ''motor/ipap/1'' ''step_per_unit'', RValue 100),
         (GetPmux, RPmux [''B1 E0'']),
         (ClearPmux ''e0'', Done),
         (AddPmux (Some 1) ''e0'' False True True, Done),
         (GetPmux, RPmux [''B1 E0''])])))
     = [GetPmux, ClearPmux ''e0'', AddPmux (Some 1) ''e0'' False True True, GetPmux]"
  using configureMotor_rebind [of sample_hw 1 0 unbound_ctrl "[]" sample_ctrl
        "[(TaurusDevice ''motor/ipap/1'', Done),
         (ReadAttribute ''motor/ipap/1'' ''step_per_unit'', RValue 100),
         (GetPmux, RPmux [''B1 E0'']),
         (ClearPmux ''e0'', Done),
         (AddPmux (Some 1) ''e0'' False True True, Done),
         (GetPmux, RPmux [''B1 E0''])]"]
  by (simp add: configureMotor_def connect_pmux_def unbound_ctrl_def sample_ctrl_def sample_hw_def
      motor_name_def str_int_1 Let_def pmux_calls_def)

subsection \<open>Abort\<close>




subsection \<open>Synchronization by position: the table\<close>

lemma linspace_uniform:
  assumes "1 < num"
  shows "linspace start stop num =
     Inr (map (\<lambda>i. start + of_nat i * ((stop - start) / of_int (num - 1))) [0..<nat num])"
proof -
  have n: "nat num = Suc (nat (num - 1))" using assms by simp
  have ne: "(of_int (num - 1) :: rat) \<noteq> 0" using assms by simp
  have "(of_nat (nat (num - 1)) :: rat) = of_int (num - 1)" using assms by simp
  then have "start + of_nat (nat (num - 1)) * ((stop - start) / of_int (num - 1)) = stop"
    using ne by simp
  then show ?thesis using assms unfolding n by (simp add: linspace_def Let_def)
qed



lemma synch_values_end:
  assumes "synch_values env c sg n tr = (Inr (start, delta, e), tr1)"
  shows "e = start + delta * of_int n"
  using assms
  by (auto simp add: synch_values_def Let_def add_divide_distrib distrib_right
      split: option.splits hw_reply.splits if_splits prod.splits sum.splits)

lemma synch_values_fields:
  "synch_values env (c\<lparr>time_mode := a, is_tgtenc := b\<rparr>) sg n tr = synch_values env c sg n tr"
  by (simp add: synch_values_def Let_def split: option.splits hw_reply.splits)









lemma send_table_retry_accepted:
  assumes "env tr (SetEcamTable ax table src) = Done" and "0 < k"
  shows "send_table_retry env ax table src k tr = (True, tr @ [(SetEcamTable ax table src, Done)])"
proof -
  obtain k' where "k = Suc k'" using assms(2) by (cases k) simp_all
  then show ?thesis using assms(1) by (simp add: Let_def)
qed

lemma SynchOne_position:
  assumes "Repeats sg = Some n" and "Initial sg \<noteq> None"
    and "env tr (GetCfg (motor_axis c) ''TGTENC'') = RCfg v"
    and "synch_values env c sg n (tr @ [(GetCfg (motor_axis c) ''TGTENC'', RCfg v)]) = (Inr (start, delta, e), tr1)"
  shows "SynchOne env axis (sg # rest) c tr =
     (case trigger_table c n start delta e of
        Inl x \<Rightarrow> (Inl x, c\<lparr>time_mode := False, is_tgtenc := (v = ''NONE'')\<rparr>, tr1)
      | Inr table \<Rightarrow>
          (case send_table_retry env (motor_axis c) table (ecam_source c) (nat (retries_nr c)) tr1 of
             (table_loaded, tr2) \<Rightarrow>
               if \<not> table_loaded
               then (Inl (RuntimeError msg_not_sent), c\<lparr>time_mode := False, is_tgtenc := (v = ''NONE'')\<rparr>, tr2)
               else (Inr PyNone, c\<lparr>time_mode := False, is_tgtenc := (v = ''NONE'')\<rparr>, tr2)))"
proof -
  have tt: "trigger_table (c\<lparr>time_mode := False, is_tgtenc := (v = ''NONE'')\<rparr>) n start delta e
      = trigger_table c n start delta e"
    by (simp add: trigger_table_def)
  obtain ini where ini: "Initial sg = Some ini" using assms(2) by blast
  note hyps = assms(1) ini assms(3) assms(4)
  show ?thesis
  proof (cases "trigger_table c n start delta e")
    case (Inl x)
    then show ?thesis
      using hyps by (simp add: SynchOne_def Let_def synch_values_fields tt)
  next
    case (Inr table)
    obtain loaded tr2 where
      "send_table_retry env (motor_axis c) table (ecam_source c) (nat (retries_nr c)) tr1 = (loaded, tr2)"
      by (cases "send_table_retry env (motor_axis c) table (ecam_source c) (nat (retries_nr c)) tr1")
    then show ?thesis
      using hyps Inr by (simp add: SynchOne_def Let_def synch_values_fields tt)
  qed
qed

lemma trigger_table_linspace:
  assumes "\<not> start_trigger_only c" and "1 < n" and "n \<le> MAX_ECAM_VALUES"
  shows "trigger_table c n start delta (start + delta * of_int n) =
     Inr (map (\<lambda>i. start + of_nat i * delta) [0..<nat n])"
proof -
  have ne: "(of_int (n - 1) :: rat) \<noteq> 0" using assms(2) by simp
  have "(start + delta * of_int n - delta - start) / of_int (n - 1) = delta"
    using ne by (simp add: field_simps)
  then show ?thesis
    using assms by (simp add: trigger_table_def linspace_uniform)
qed



text \<open>
  C2. The scenario of the specification: encoder input with 10000 steps per turn on one
  turn, 8000 motor steps per turn on one turn, 100 steps per unit, start position 0, step
  1, three repeats, \<^verbatim>\<open>StartTriggerOnly\<close> off. \<^verbatim>\<open>SynchOne\<close> reads the four resolution
  registers and sends the table \<open>[0, 125, 250]\<close> with the source \<^verbatim>\<open>ENCIN\<close>.
\<close>

theorem SynchOne_scenario:
  "SynchOne sample_hw 0 [position_group 3 0 1] (sample_ctrl\<lparr>ecam_source := ''ENCIN''\<rparr>) [] =
     (Inr PyNone, sample_ctrl\<lparr>ecam_source := ''ENCIN''\<rparr>,
      [(GetCfg (Some 1) ''TGTENC'', RCfg ''ENCIN''),
       (GetAxis (Some 1), Done),
       (GetCfg (Some 1) ''EINNSTEP'', RCfg ''10000''),
       (GetCfg (Some 1) ''EINNTURN'', RCfg ''1''),
       (GetCfg (Some 1) ''ANSTEP'', RCfg ''8000''),
       (GetCfg (Some 1) ''ANTURN'', RCfg ''1''),
       (SetEcamTable (Some 1) [0, 125, 250] ''ENCIN'', Done)])"
  by code_simp

subsection \<open>Synchronization by position: a step of zero\<close>

text \<open>
  C3, as the claim states it, fails: with a step of 0 and two repeats \<^verbatim>\<open>SynchOne\<close> raises
  nothing, and the table \<open>[500, 500]\<close> is sent and accepted.
\<close>

theorem SynchOne_zero_delta_loaded:
  "SynchOne sample_hw 0 [position_group 2 5 0] sample_ctrl [] =
     (Inr PyNone, sample_ctrl,
      [(GetCfg (Some 1) ''TGTENC'', RCfg ''ENCIN''),
       (GetAxis (Some 1), Done),
       (SetEcamTable (Some 1) [500, 500] ''AXIS'', Done)])"
  by code_simp

text \<open>
  C3, amended. For a position driven description with \<open>1 < repeat_count \<le> 20477\<close>,
  \<^verbatim>\<open>StartTriggerOnly\<close> off and \<open>delta = 0\<close> in the units of the selected encoder, the
  table is \<open>repeat_count\<close> copies of \<open>start\<close>; no error is raised for it, it is sent,
  and when the link accepts it (with at least one attempt allowed) \<^verbatim>\<open>SynchOne\<close> returns
  normally with the table loaded.
\<close>

theorem SynchOne_zero_delta:
  assumes "Repeats sg = Some n" and "Initial sg \<noteq> None"
    and "1 < n" and "n \<le> MAX_ECAM_VALUES" and "\<not> start_trigger_only c"
    and "env tr (GetCfg (motor_axis c) ''TGTENC'') = RCfg v"
    and "synch_values env c sg n (tr @ [(GetCfg (motor_axis c) ''TGTENC'', RCfg v)]) = (Inr (start, 0, e), tr1)"
    and "env tr1 (SetEcamTable (motor_axis c) (replicate (nat n) start) (ecam_source c)) = Done"
    and "0 < retries_nr c"
  shows "trigger_table c n start 0 e = Inr (replicate (nat n) start)
       \<and> SynchOne env axis (sg # rest) c tr =
           (Inr PyNone, c\<lparr>time_mode := False, is_tgtenc := (v = ''NONE'')\<rparr>,
            tr1 @ [(SetEcamTable (motor_axis c) (replicate (nat n) start) (ecam_source c), Done)])"
proof -
  have e: "e = start + 0 * of_int n" using assms(7) by (rule synch_values_end)
  have "trigger_table c n start 0 (start + 0 * of_int n) = Inr (map (\<lambda>i. start + of_nat i * 0) [0..<nat n])"
    using assms(5,3,4) by (rule trigger_table_linspace)
  moreover have "map (\<lambda>i. start + of_nat i * 0) [0..<nat n] = replicate (nat n) start"
    by (simp add: map_replicate_const)
  ultimately have tt: "trigger_table c n start 0 e = Inr (replicate (nat n) start)"
    unfolding e by simp
  have "0 < nat (retries_nr c)" using assms(9) by simp
  then have send: "send_table_retry env (motor_axis c) (replicate (nat n) start) (ecam_source c)
       (nat (retries_nr c)) tr1 = (True, tr1 @ [(SetEcamTable (motor_axis c) (replicate (nat n) start) (ecam_source c), Done)])"
    using assms(8) by (simp add: send_table_retry_accepted)
  show ?thesis
    by (simp add: SynchOne_position [OF assms(1,2,6,7)] tt send)
qed

theorem SynchOne_zero_delta_witness:
  "synch_values sample_hw (sample_ctrl\<lparr>ecam_source := ''ABSENC''\<rparr>) (position_group 3 7 0) 3
       [(GetCfg (Some 1) ''TGTENC'', RCfg ''ENCIN'')]
     = (Inr (7 / 80, 0, 7 / 80),
        [(GetCfg (Some 1) ''TGTENC'', RCfg ''ENCIN''), (GetAxis (Some 1), Done),
         (GetCfg (Some 1) ''ABSNSTEP'', RCfg ''1''), (GetCfg (Some 1) ''ABSNTURN'', RCfg ''1''),
         (GetCfg (Some 1) ''ANSTEP'', RCfg ''8000''), (GetCfg (Some 1) ''ANTURN'', RCfg ''1'')])
   \<and> trigger_table (sample_ctrl\<lparr>ecam_source := ''ABSENC''\<rparr>) 3 (7 / 80) 0 (7 / 80) = Inr [7 / 80, 7 / 80, 7 / 80]
   \<and> SynchOne sample_hw 0 [position_group 3 7 0] (sample_ctrl\<lparr>ecam_source := ''ABSENC''\<rparr>) [] =
       (Inr PyNone, sample_ctrl\<lparr>ecam_source := ''ABSENC''\<rparr>,
        [(GetCfg (Some 1) ''TGTENC'', RCfg ''ENCIN''), (GetAxis (Some 1), Done),
         (GetCfg (Some 1) ''ABSNSTEP'', RCfg ''1''), (GetCfg (Some 1) ''ABSNTURN'', RCfg ''1''),
         (GetCfg (Some 1) ''ANSTEP'', RCfg ''8000''), (GetCfg (Some 1) ''ANTURN'', RCfg ''1''),
         (SetEcamTable (Some 1) [7 / 80, 7 / 80, 7 / 80] ''ABSENC'', Done)])"
proof -
  let ?c = "sample_ctrl\<lparr>ecam_source := ''ABSENC''\<rparr>"
  let ?tr1 = "[(GetCfg (Some 1) ''TGTENC'', RCfg ''ENCIN''), (GetAxis (Some 1), Done),
         (GetCfg (Some 1) ''ABSNSTEP'', RCfg ''1''), (GetCfg (Some 1) ''ABSNTURN'', RCfg ''1''),
         (GetCfg (Some 1) ''ANSTEP'', RCfg ''8000''), (GetCfg (Some 1) ''ANTURN'', RCfg ''1'')]"
  have sv: "synch_values sample_hw ?c (position_group 3 7 0) 3
       ([] @ [(GetCfg (motor_axis ?c) ''TGTENC'', RCfg ''ENCIN'')]) = (Inr (7 / 80, 0, 7 / 80), ?tr1)"
    by code_simp
  have h1: "Repeats (position_group 3 7 0) = Some 3" by (simp add: position_group_def)
  have h2: "Initial (position_group 3 7 0) \<noteq> None" by (simp add: position_group_def)
  have h3: "(1::int) < 3" by simp
  have h4: "3 \<le> MAX_ECAM_VALUES" by (simp add: MAX_ECAM_VALUES_def)
  have h5: "\<not> start_trigger_only ?c" by (simp add: sample_ctrl_def)
  have h6: "sample_hw [] (GetCfg (motor_axis ?c) ''TGTENC'') = RCfg ''ENCIN''"
    by (simp add: sample_hw_def)
  have h8: "sample_hw ?tr1 (SetEcamTable (motor_axis ?c) (replicate (nat 3) (7 / 80)) (ecam_source ?c)) = Done"
    by (simp add: sample_hw_def)
  have h9: "0 < retries_nr ?c" by (simp add: sample_ctrl_def)
  have ax: "motor_axis ?c = Some 1" "ecam_source ?c = ''ABSENC''" "is_tgtenc ?c = False" "time_mode ?c = False"
    by (simp_all add: sample_ctrl_def)
  have c: "?c\<lparr>time_mode := False, is_tgtenc := False\<rparr> = ?c"
    by (simp add: sample_ctrl_def)
  have r3: "replicate 3 (7 / 80 :: rat) = [7 / 80, 7 / 80, 7 / 80]"
    by (simp add: numeral_3_eq_3)
  show ?thesis
    using SynchOne_zero_delta [OF h1 h2 h3 h4 h5 h6 sv h8 h9, of 0 "[]"] sv
    by (simp add: ax c r3)
qed

subsection \<open>Synchronization by position: too many points\<close>




end
